theory Spec2Isabelle
  imports Main "HOL-Library.AList"
begin

section \<open>Python values, objects and the interpreter state\<close>

text \<open>
  The three source files are Python. Their objects are mutable and have an identity, so
  the embedding keeps a heap: a value is \<open>None\<close>, a bool, an int, a tuple or a reference
  to an object; an object is an instance of one of the five classes the files use,
  together with its instance attributes in the order in which they were stored.
  Python's ints are unbounded, hence \<open>int\<close>.
\<close>

type_synonym ref = nat

datatype pyval = PyNone | PyBool bool | PyInt int | PyTuple "pyval list" | PyRef ref

datatype pyclass = Class_Ok | Class_Err | Class_ValueError | Class_A | Class_B

text \<open>
  The attribute names that occur in the files: the three fields of \<open>ResultInterface\<close>,
  \<open>Ok\<close> and \<open>Err\<close>, and \<open>args\<close>, which every \<open>BaseException\<close> carries.
\<close>

datatype attr = Response | Error | Is_success | Args

datatype pyobj = Instance (cls: pyclass) (attrs: "(attr \<times> pyval) list")

text \<open>
  The state a statement can read and change: the module's global names and the heap.
  A reference is the index of its object in the heap; objects are never removed.
\<close>

record state =
  globals :: "(string \<times> pyval) list"
  heap :: "pyobj list"

text \<open>
  What a statement can raise. \<open>Dangling_reference\<close> is no Python exception: Python
  has no reference without an object, and the constructor only keeps \<open>lookup\<close> and the
  functions above it total on states that no run produces.
\<close>

datatype pyerror = AttributeError | TypeError | NameError | Dangling_reference

type_synonym 'a outcome = "pyerror + 'a"

definition alloc :: "pyobj \<Rightarrow> state \<Rightarrow> pyval \<times> state" where
  "alloc ob s = (PyRef (length (heap s)), s\<lparr>heap := heap s @ [ob]\<rparr>)"

definition lookup :: "ref \<Rightarrow> state \<Rightarrow> pyobj option" where
  "lookup a s = (if a < length (heap s) then Some (heap s ! a) else None)"

text \<open>
  A dataclass field with a default value stays behind as a class attribute
  (\<open>error: Literal[None] = None\<close>, \<open>is_success: Literal[True] = True\<close> in \<open>Ok\<close>;
  \<open>response: Literal[None] = None\<close>, \<open>is_success: Literal[False] = False\<close> in \<open>Err\<close>).
\<close>

fun class_attr :: "pyclass \<Rightarrow> attr \<Rightarrow> pyval option" where
  "class_attr Class_Ok Error = Some PyNone"
| "class_attr Class_Ok Is_success = Some (PyBool True)"
| "class_attr Class_Err Response = Some PyNone"
| "class_attr Class_Err Is_success = Some (PyBool False)"
| "class_attr _ _ = None"

text \<open>
  \<open>obj.name\<close>: the instance attribute, else the class attribute, else AttributeError.
  \<open>None\<close>, bools, ints and tuples have none of the four attributes.
\<close>

definition getattr :: "pyval \<Rightarrow> attr \<Rightarrow> state \<Rightarrow> pyval outcome" where
  "getattr obj name s =
     (case obj of
        PyRef a \<Rightarrow>
          (case lookup a s of
             None \<Rightarrow> Inl Dangling_reference
           | Some ob \<Rightarrow>
               (case map_of (attrs ob) name of
                  Some v \<Rightarrow> Inr v
                | None \<Rightarrow>
                    (case class_attr (cls ob) name of
                       Some v \<Rightarrow> Inr v
                     | None \<Rightarrow> Inl AttributeError)))
      | _ \<Rightarrow> Inl AttributeError)"



section \<open>\<open>type_narrowing_generic_result.py\<close>\<close>

text \<open>
  \<open>Ok(response, error=None, is_success=True)\<close>: the \<open>__init__\<close> that \<open>@dataclass\<close>
  generates takes every field as a parameter, the last two with the defaults of the
  class body, and stores them in the order of declaration. An omitted argument is
  \<open>None\<close> of the option type here. The annotations are not checked when the program
  runs.
\<close>

definition Ok_init :: "pyval \<Rightarrow> pyval option \<Rightarrow> pyval option \<Rightarrow> state \<Rightarrow> (pyval \<times> state) outcome" where
  "Ok_init response error is_success s =
     Inr (alloc (Instance Class_Ok
            [(Response, response),
             (Error, case error of None \<Rightarrow> PyNone | Some e \<Rightarrow> e),
             (Is_success, case is_success of None \<Rightarrow> PyBool True | Some b \<Rightarrow> b)]) s)"

text \<open>\<open>Err(error, response=None, is_success=False)\<close>.\<close>

definition Err_init :: "pyval \<Rightarrow> pyval option \<Rightarrow> pyval option \<Rightarrow> state \<Rightarrow> (pyval \<times> state) outcome" where
  "Err_init error response is_success s =
     Inr (alloc (Instance Class_Err
            [(Error, error),
             (Response, case response of None \<Rightarrow> PyNone | Some r \<Rightarrow> r),
             (Is_success, case is_success of None \<Rightarrow> PyBool False | Some b \<Rightarrow> b)]) s)"

text \<open>\<open>ValueError(*args)\<close>: a new exception object whose \<open>args\<close> is the tuple given.\<close>

definition ValueError_init :: "pyval list \<Rightarrow> state \<Rightarrow> (pyval \<times> state) outcome" where
  "ValueError_init args s = Inr (alloc (Instance Class_ValueError [(Args, PyTuple args)]) s)"

text \<open>
  \<open>return Ok(response=value) if value > 10 else Err(error=ValueError())\<close>:
  the condition first, then only the chosen branch; in the second branch the argument
  \<open>ValueError()\<close> is evaluated before \<open>Err\<close> is called.
\<close>

definition interface :: "int \<Rightarrow> state \<Rightarrow> (pyval \<times> state) outcome" where
  "interface value s =
     (if value > 10 then Ok_init (PyInt value) None None s
      else (case ValueError_init [] s of
              Inl e \<Rightarrow> Inl e
            | Inr (exc, s1) \<Rightarrow> Err_init exc None None s1))"

text \<open>Reading a global name; \<open>result = ...\<close> binds one.\<close>

definition load_global :: "string \<Rightarrow> state \<Rightarrow> pyval outcome" where
  "load_global name s = (case map_of (globals s) name of None \<Rightarrow> Inl NameError | Some v \<Rightarrow> Inr v)"

definition store_global :: "string \<Rightarrow> pyval \<Rightarrow> state \<Rightarrow> state" where
  "store_global name v s = s\<lparr>globals := AList.update name v (globals s)\<rparr>"

text \<open>The test \<open>result.is_success is True\<close>: identity with the one object \<open>True\<close>.\<close>

definition narrowing_test :: "state \<Rightarrow> bool outcome" where
  "narrowing_test s =
     (case load_global ''result'' s of
        Inl e \<Rightarrow> Inl e
      | Inr r \<Rightarrow> (case getattr r Is_success s of
                   Inl e \<Rightarrow> Inl e
                 | Inr b \<Rightarrow> Inr (b = PyBool True)))"

text \<open>
  The \<open>if\<close> statement of lines 33 to 38. Each branch is an expression statement; the
  model returns the value the expression has, which the program then drops.
\<close>

definition narrowing_branch :: "state \<Rightarrow> pyval outcome" where
  "narrowing_branch s =
     (case narrowing_test s of
        Inl e \<Rightarrow> Inl e
      | Inr t \<Rightarrow>
          (if t
           then (case load_global ''result'' s of
                   Inl e \<Rightarrow> Inl e | Inr r \<Rightarrow> getattr r Response s)
           else (case load_global ''result'' s of
                   Inl e \<Rightarrow> Inl e | Inr r \<Rightarrow> getattr r Error s)))"

text \<open>The module body from line 31 on: \<open>result = interface(12)\<close>, then the branch.\<close>

definition module_body :: "state \<Rightarrow> state outcome" where
  "module_body s =
     (case interface 12 s of
        Inl e \<Rightarrow> Inl e
      | Inr (r, s1) \<Rightarrow>
          (let s2 = store_global ''result'' r s1
           in case narrowing_branch s2 of Inl e \<Rightarrow> Inl e | Inr _ \<Rightarrow> Inr s2))"

section \<open>\<open>circular_imports/file_a.py\<close> and \<open>circular_imports/file_b.py\<close>\<close>

text \<open>
  \<open>cls()\<close>, the call of a class with no argument. \<open>A\<close> and \<open>B\<close> define no \<open>__init__\<close>
  and no attribute: the call gives a new object with an empty instance dictionary.
  \<open>ValueError()\<close> is as above; \<open>Ok()\<close> and \<open>Err()\<close> lack their required first argument.
\<close>

definition call_no_args :: "pyclass \<Rightarrow> state \<Rightarrow> (pyval \<times> state) outcome" where
  "call_no_args c s =
     (case c of
        Class_A \<Rightarrow> Inr (alloc (Instance Class_A []) s)
      | Class_B \<Rightarrow> Inr (alloc (Instance Class_B []) s)
      | Class_ValueError \<Rightarrow> ValueError_init [] s
      | Class_Ok \<Rightarrow> Inl TypeError
      | Class_Err \<Rightarrow> Inl TypeError)"

text \<open>
  \<open>def from_b(cls, b: B) -> Self: return cls()\<close>, a classmethod: \<open>cls\<close> is the class
  the method is called on, \<open>A\<close> in \<open>A.from_b(b)\<close>. The parameter \<open>b\<close> is not read.
\<close>

definition from_b :: "pyclass \<Rightarrow> pyval \<Rightarrow> state \<Rightarrow> (pyval \<times> state) outcome" where
  "from_b c b s = call_no_args c s"

definition from_a :: "pyclass \<Rightarrow> pyval \<Rightarrow> state \<Rightarrow> (pyval \<times> state) outcome" where
  "from_a c a s = call_no_args c s"

section \<open>The vocabulary of the properties\<close>

text \<open>The state before anything is bound or allocated.\<close>

definition empty_state :: state where
  "empty_state = \<lparr>globals = [], heap = []\<rparr>"

text \<open>The object a value refers to, and \<open>isinstance\<close> (no class here has a subclass).\<close>

definition obj_at :: "pyval \<Rightarrow> state \<Rightarrow> pyobj option" where
  "obj_at r s = (case r of PyRef a \<Rightarrow> lookup a s | _ \<Rightarrow> None)"

definition instance_of :: "pyval \<Rightarrow> pyclass \<Rightarrow> state \<Rightarrow> bool" where
  "instance_of r c s = (case obj_at r s of None \<Rightarrow> False | Some ob \<Rightarrow> cls ob = c)"

text \<open>
  The invariant of section 3 of the specification: exactly one of \<open>response\<close> and
  \<open>error\<close> is not \<open>None\<close>, and \<open>is_success\<close> is the bool that says whether it is
  \<open>response\<close>.
\<close>

definition payload_invariant :: "pyval \<Rightarrow> state \<Rightarrow> bool" where
  "payload_invariant r s =
     (case (getattr r Response s, getattr r Error s, getattr r Is_success s) of
        (Inr resp, Inr err, Inr d) \<Rightarrow>
          ((resp \<noteq> PyNone) \<noteq> (err \<noteq> PyNone)) \<and> d = PyBool (resp \<noteq> PyNone)
      | _ \<Rightarrow> False)"

section \<open>Properties\<close>

subsection \<open>What the operations do to the state\<close>

lemma interface_gt:
  "10 < value \<Longrightarrow>
   interface value s =
     Inr (PyRef (length (heap s)),
          s\<lparr>heap := heap s @ [Instance Class_Ok
                 [(Response, PyInt value), (Error, PyNone), (Is_success, PyBool True)]]\<rparr>)"
  by (simp add: interface_def Ok_init_def alloc_def)

lemma interface_le:
  "value \<le> 10 \<Longrightarrow>
   interface value s =
     Inr (PyRef (Suc (length (heap s))),
          s\<lparr>heap := heap s @ [Instance Class_ValueError [(Args, PyTuple [])],
                              Instance Class_Err
                 [(Error, PyRef (length (heap s))), (Response, PyNone),
                  (Is_success, PyBool False)]]\<rparr>)"
  by (simp add: interface_def ValueError_init_def Err_init_def alloc_def)

lemma lookup_appended:
  "lookup a (s\<lparr>heap := heap s @ obs\<rparr>) =
     (if a < length (heap s) then Some (heap s ! a)
      else if a - length (heap s) < length obs then Some (obs ! (a - length (heap s)))
      else None)"
  by (auto simp add: lookup_def nth_append)


lemma lookup_appended_new:
  "lookup (length (heap s)) (s\<lparr>heap := heap s @ [ob]\<rparr>) = Some ob"
  by (simp add: lookup_def)

lemma lookup_store_global:
  "lookup a (store_global n v s) = lookup a s"
  by (simp add: lookup_def store_global_def)

lemma getattr_store_global:
  "getattr r f (store_global n v s) = getattr r f s"
  by (simp add: getattr_def store_global_def lookup_def split: pyval.splits)

lemma load_store_global:
  "load_global n (store_global n v s) = Inr v"
  by (simp add: load_global_def store_global_def update_conv')


lemma narrowing_test_stored:
  "narrowing_test (store_global ''result'' r s) =
     (case getattr r Is_success s of Inl e \<Rightarrow> Inl e | Inr b \<Rightarrow> Inr (b = PyBool True))"
  by (simp add: narrowing_test_def load_store_global getattr_store_global)

lemma narrowing_branch_stored:
  "narrowing_branch (store_global ''result'' r s) =
     (case getattr r Is_success s of
        Inl e \<Rightarrow> Inl e
      | Inr b \<Rightarrow> if b = PyBool True then getattr r Response s else getattr r Error s)"
  by (simp add: narrowing_branch_def narrowing_test_stored load_store_global
      getattr_store_global split: sum.splits)

lemma module_body_eq:
  "module_body s =
     Inr (store_global ''result'' (PyRef (length (heap s)))
            (s\<lparr>heap := heap s @ [Instance Class_Ok
                 [(Response, PyInt 12), (Error, PyNone), (Is_success, PyBool True)]]\<rparr>))"
  by (simp add: module_body_def interface_gt Let_def narrowing_branch_stored
      getattr_def lookup_appended)

lemma lookup_beyond:
  "length (heap s) \<le> a \<Longrightarrow> lookup a s = None"
  by (simp add: lookup_def)





subsection \<open>The success variant\<close>

text \<open>
  C1. For every integer \<open>value > 10\<close>, \<open>interface(value)\<close> returns an instance of \<open>Ok\<close>
  whose \<open>response\<close> is \<open>value\<close> and whose \<open>error\<close> is \<open>None\<close> (and whose \<open>is_success\<close>
  is \<open>True\<close>), from every state.
\<close>

theorem interface_success:
  "value > 10 \<Longrightarrow>
   \<exists>r s'. interface value s = Inr (r, s') \<and> instance_of r Class_Ok s' \<and>
     getattr r Response s' = Inr (PyInt value) \<and> getattr r Error s' = Inr PyNone \<and>
     getattr r Is_success s' = Inr (PyBool True)"
  by (simp add: interface_gt instance_of_def obj_at_def getattr_def lookup_appended)

theorem interface_success_witness:
  "(12::int) > 10 \<and>
   (\<exists>r s'. interface 12 empty_state = Inr (r, s') \<and> instance_of r Class_Ok s' \<and>
     getattr r Response s' = Inr (PyInt 12) \<and> getattr r Error s' = Inr PyNone \<and>
     getattr r Is_success s' = Inr (PyBool True))"
  using interface_success [of 12 empty_state] by simp

subsection \<open>The failure variant\<close>

text \<open>
  C2. For every integer \<open>value \<le> 10\<close>, \<open>interface(value)\<close> returns an instance of
  \<open>Err\<close> whose \<open>error\<close> is present (not \<open>None\<close>) and whose \<open>response\<close> is \<open>None\<close>
  (and whose \<open>is_success\<close> is \<open>False\<close>). The witness is at the boundary 10 and at 0.
\<close>

theorem interface_failure:
  "value \<le> 10 \<Longrightarrow>
   \<exists>r s' e. interface value s = Inr (r, s') \<and> instance_of r Class_Err s' \<and>
     getattr r Error s' = Inr e \<and> e \<noteq> PyNone \<and> getattr r Response s' = Inr PyNone \<and>
     getattr r Is_success s' = Inr (PyBool False)"
  by (simp add: interface_le instance_of_def obj_at_def getattr_def lookup_appended)

theorem interface_failure_witness:
  "(10::int) \<le> 10 \<and> (0::int) \<le> 10 \<and>
   (\<exists>r s' e. interface 10 empty_state = Inr (r, s') \<and> instance_of r Class_Err s' \<and>
     getattr r Error s' = Inr e \<and> e \<noteq> PyNone \<and> getattr r Response s' = Inr PyNone \<and>
     getattr r Is_success s' = Inr (PyBool False)) \<and>
   (\<exists>r s' e. interface 0 empty_state = Inr (r, s') \<and> instance_of r Class_Err s' \<and>
     getattr r Error s' = Inr e \<and> e \<noteq> PyNone \<and> getattr r Response s' = Inr PyNone \<and>
     getattr r Is_success s' = Inr (PyBool False))"
  using interface_failure [of 10 empty_state] interface_failure [of 0 empty_state] by simp

text \<open>
  C8. When \<open>interface\<close> returns the failure variant, its \<open>error\<close> refers to an instance
  of \<open>ValueError\<close> whose \<open>args\<close> is the empty tuple: the object that the call
  \<open>ValueError()\<close> with no argument makes in the state \<open>interface\<close> was called in.
\<close>

theorem interface_error_is_ValueError:
  "value \<le> 10 \<Longrightarrow>
   \<exists>r s' e s1. interface value s = Inr (r, s') \<and> getattr r Error s' = Inr e \<and>
     obj_at e s' = Some (Instance Class_ValueError [(Args, PyTuple [])]) \<and>
     getattr e Args s' = Inr (PyTuple []) \<and>
     ValueError_init [] s = Inr (e, s1) \<and> obj_at e s1 = obj_at e s'"
  by (simp add: interface_le obj_at_def getattr_def lookup_appended ValueError_init_def
      alloc_def)

theorem interface_error_is_ValueError_witness:
  "(10::int) \<le> 10 \<and>
   (\<exists>r s' e s1. interface 10 empty_state = Inr (r, s') \<and> getattr r Error s' = Inr e \<and>
     obj_at e s' = Some (Instance Class_ValueError [(Args, PyTuple [])]) \<and>
     getattr e Args s' = Inr (PyTuple []) \<and>
     ValueError_init [] empty_state = Inr (e, s1) \<and> obj_at e s1 = obj_at e s')"
  using interface_error_is_ValueError [of 10 empty_state] by simp

subsection \<open>Totality, determinism, no side effect\<close>

text \<open>
  C9. \<open>interface\<close> is total: for every integer, positive, zero or negative, and from
  every state, the call returns (it raises nothing) and what it returns is an instance
  of \<open>Ok\<close> or an instance of \<open>Err\<close>.
\<close>

theorem interface_total:
  "\<exists>r s'. interface value s = Inr (r, s') \<and>
     (instance_of r Class_Ok s' \<or> instance_of r Class_Err s')"
proof (cases "10 < value")
  case True
  then show ?thesis
    by (simp add: interface_gt instance_of_def obj_at_def lookup_appended)
next
  case False
  then have "value \<le> 10" by simp
  then show ?thesis
    by (simp add: interface_le instance_of_def obj_at_def lookup_appended)
qed

text \<open>
  Two calls with the same integer do not return equal results when the integer is at
  most 10. Each call evaluates \<open>ValueError()\<close> anew, so after \<open>interface(0)\<close> twice the
  \<open>error\<close> fields of the two results refer to two exception objects, and the two \<open>Err\<close>
  objects differ in that field. (The \<open>__eq__\<close> that \<open>@dataclass\<close> generates compares the
  fields as tuples, and an exception is equal to itself only, so \<open>==\<close> on the two
  results is \<open>False\<close>.)
\<close>

theorem two_failures_carry_different_errors:
  "interface 0 empty_state =
     Inr (PyRef 1, \<lparr>globals = [], heap =
            [Instance Class_ValueError [(Args, PyTuple [])],
             Instance Class_Err [(Error, PyRef 0), (Response, PyNone),
                                 (Is_success, PyBool False)]]\<rparr>) \<and>
   interface 0 \<lparr>globals = [], heap =
            [Instance Class_ValueError [(Args, PyTuple [])],
             Instance Class_Err [(Error, PyRef 0), (Response, PyNone),
                                 (Is_success, PyBool False)]]\<rparr> =
     Inr (PyRef 3, \<lparr>globals = [], heap =
            [Instance Class_ValueError [(Args, PyTuple [])],
             Instance Class_Err [(Error, PyRef 0), (Response, PyNone),
                                 (Is_success, PyBool False)],
             Instance Class_ValueError [(Args, PyTuple [])],
             Instance Class_Err [(Error, PyRef 2), (Response, PyNone),
                                 (Is_success, PyBool False)]]\<rparr>) \<and>
   getattr (PyRef 1) Error \<lparr>globals = [], heap =
            [Instance Class_ValueError [(Args, PyTuple [])],
             Instance Class_Err [(Error, PyRef 0), (Response, PyNone),
                                 (Is_success, PyBool False)],
             Instance Class_ValueError [(Args, PyTuple [])],
             Instance Class_Err [(Error, PyRef 2), (Response, PyNone),
                                 (Is_success, PyBool False)]]\<rparr> = Inr (PyRef 0) \<and>
   getattr (PyRef 3) Error \<lparr>globals = [], heap =
            [Instance Class_ValueError [(Args, PyTuple [])],
             Instance Class_Err [(Error, PyRef 0), (Response, PyNone),
                                 (Is_success, PyBool False)],
             Instance Class_ValueError [(Args, PyTuple [])],
             Instance Class_Err [(Error, PyRef 2), (Response, PyNone),
                                 (Is_success, PyBool False)]]\<rparr> = Inr (PyRef 2) \<and>
   obj_at (PyRef 1) \<lparr>globals = [], heap =
            [Instance Class_ValueError [(Args, PyTuple [])],
             Instance Class_Err [(Error, PyRef 0), (Response, PyNone),
                                 (Is_success, PyBool False)],
             Instance Class_ValueError [(Args, PyTuple [])],
             Instance Class_Err [(Error, PyRef 2), (Response, PyNone),
                                 (Is_success, PyBool False)]]\<rparr> \<noteq>
   obj_at (PyRef 3) \<lparr>globals = [], heap =
            [Instance Class_ValueError [(Args, PyTuple [])],
             Instance Class_Err [(Error, PyRef 0), (Response, PyNone),
                                 (Is_success, PyBool False)],
             Instance Class_ValueError [(Args, PyTuple [])],
             Instance Class_Err [(Error, PyRef 2), (Response, PyNone),
                                 (Is_success, PyBool False)]]\<rparr>"
  by (simp add: interface_def ValueError_init_def Err_init_def alloc_def empty_state_def
      getattr_def obj_at_def lookup_def)

text \<open>
  C6, as amended (the theorem above is where the claim as stated fails). \<open>interface\<close>
  has no side effect and is deterministic up to the identity of the objects it makes.
  Take a call from a state \<open>s1\<close>, a call with the same integer from any state \<open>s2\<close>, and
  a third straight after the first. Every result is a new object, of the same class,
  with the same \<open>response\<close> and the same \<open>is_success\<close>. Above 10 the \<open>error\<close> is \<open>None\<close>
  each time and the results have the same class and the same fields, so they are equal.
  At 10 and below each result carries a new \<open>ValueError\<close> of its own, with the same
  class and the same empty \<open>args\<close> as the others but another object than that of the
  call before. A call leaves the global names as they are and every object that was
  there as it is; what it adds to the heap is the result and, on a failure, the
  exception the result carries.
\<close>

theorem interface_deterministic_up_to_identity:
  "\<exists>r1 t1 r2 t2 r3 t3.
     interface value s1 = Inr (r1, t1) \<and> interface value s2 = Inr (r2, t2) \<and>
     interface value t1 = Inr (r3, t3) \<and>
     obj_at r1 s1 = None \<and> obj_at r2 s2 = None \<and> r3 \<noteq> r1 \<and>
     getattr r1 Response t1 = getattr r2 Response t2 \<and>
     getattr r1 Is_success t1 = getattr r2 Is_success t2 \<and>
     ((10 < value \<and> instance_of r1 Class_Ok t1 \<and> instance_of r2 Class_Ok t2 \<and>
       getattr r1 Error t1 = Inr PyNone \<and> getattr r2 Error t2 = Inr PyNone \<and>
       obj_at r1 t1 = obj_at r2 t2 \<and> obj_at r1 t3 = obj_at r3 t3 \<and>
       map Some (heap t1) = map Some (heap s1) @ [obj_at r1 t1]) \<or>
      (value \<le> 10 \<and> instance_of r1 Class_Err t1 \<and> instance_of r2 Class_Err t2 \<and>
       (\<exists>e1 e2 e3. getattr r1 Error t1 = Inr e1 \<and> getattr r2 Error t2 = Inr e2 \<and>
          getattr r3 Error t3 = Inr e3 \<and> getattr r1 Error t3 = Inr e1 \<and> e3 \<noteq> e1 \<and>
          obj_at e1 s1 = None \<and> obj_at e2 s2 = None \<and>
          obj_at e1 t1 = Some (Instance Class_ValueError [(Args, PyTuple [])]) \<and>
          obj_at e2 t2 = obj_at e1 t1 \<and> obj_at e3 t3 = obj_at e1 t3 \<and>
          map Some (heap t1) = map Some (heap s1) @ [obj_at e1 t1, obj_at r1 t1]))) \<and>
     globals t1 = globals s1 \<and> take (length (heap s1)) (heap t1) = heap s1"
proof (cases "10 < value")
  case True
  then show ?thesis
    by (simp add: interface_gt instance_of_def getattr_def obj_at_def lookup_appended
        lookup_beyond)
next
  case False
  then have "value \<le> 10" by simp
  then show ?thesis
    by (simp add: interface_le instance_of_def getattr_def obj_at_def lookup_appended
        lookup_beyond)
qed

subsection \<open>The module body and its branch\<close>

text \<open>
  C7. The error of the failure variant is made and referenced, never raised. Whatever
  integer \<open>interface\<close> is given, once its result is bound to \<open>result\<close> the \<open>if\<close>
  statement of the module ends normally: on a success it has read \<open>result.response\<close>,
  on a failure it has read \<open>result.error\<close> and got the reference to the stored
  \<open>ValueError\<close>. The module body itself, with \<open>interface(12)\<close>, ends normally from
  every state.
\<close>

theorem error_referenced_never_raised:
  "\<exists>r s1 x. interface value s = Inr (r, s1) \<and>
     narrowing_branch (store_global ''result'' r s1) = Inr x \<and>
     ((10 < value \<and> getattr r Response s1 = Inr x) \<or>
      (value \<le> 10 \<and> getattr r Error s1 = Inr x \<and> instance_of x Class_ValueError s1)) \<and>
     (\<exists>s'. module_body s = Inr s')"
proof (cases "10 < value")
  case True
  then show ?thesis
    by (simp add: interface_gt narrowing_branch_stored getattr_def lookup_appended
        module_body_eq)
next
  case False
  then have "value \<le> 10" by simp
  then show ?thesis
    by (simp add: interface_le narrowing_branch_stored getattr_def lookup_appended
        module_body_eq instance_of_def obj_at_def)
qed

text \<open>
  C10. After the module body, from every state, the global \<open>result\<close> refers to an
  instance of \<open>Ok\<close> with \<open>response = 12\<close>, \<open>error = None\<close> and \<open>is_success = True\<close>,
  the same class and fields as the object that \<open>Ok(response=12, error=None,
  is_success=True)\<close> makes; the test \<open>result.is_success is True\<close> holds, so the branch
  executed is the one that reads \<open>result.response\<close>, which is 12.
\<close>

theorem module_result_is_Ok_12:
  "\<exists>s' r r2 s2. module_body s = Inr s' \<and> load_global ''result'' s' = Inr r \<and>
     obj_at r s' = Some (Instance Class_Ok
        [(Response, PyInt 12), (Error, PyNone), (Is_success, PyBool True)]) \<and>
     Ok_init (PyInt 12) (Some PyNone) (Some (PyBool True)) s' = Inr (r2, s2) \<and>
     obj_at r2 s2 = obj_at r s' \<and>
     narrowing_test s' = Inr True \<and>
     narrowing_branch s' = getattr r Response s' \<and>
     getattr r Response s' = Inr (PyInt 12)"
  by (simp add: module_body_eq narrowing_branch_stored narrowing_test_stored
        load_store_global getattr_store_global getattr_def lookup_appended
        lookup_store_global obj_at_def Ok_init_def alloc_def lookup_appended_new)

subsection \<open>The factories of \<open>A\<close> and \<open>B\<close>\<close>

text \<open>
  C4. \<open>A.from_b(b)\<close> returns, for every argument and so for every instance of \<open>B\<close>,
  a reference (not \<open>None\<close>) to a new object, one that the state before did not hold,
  which is an instance of \<open>A\<close> with no attribute, as the call \<open>A()\<close> makes it; the other
  objects stay as they were, and the result is the same whatever the argument is.
  \<open>B.from_a(a)\<close> does the same with an instance of \<open>B\<close>.
\<close>

theorem factories_return_fresh_default_instances:
  "(\<exists>r s'. from_b Class_A b s = Inr (r, s') \<and> r \<noteq> PyNone \<and> obj_at r s = None \<and>
      obj_at r s' = Some (Instance Class_A []) \<and>
      take (length (heap s)) (heap s') = heap s \<and>
      from_b Class_A b s = call_no_args Class_A s \<and>
      from_b Class_A b' s = from_b Class_A b s) \<and>
   (\<exists>r s'. from_a Class_B a s = Inr (r, s') \<and> r \<noteq> PyNone \<and> obj_at r s = None \<and>
      obj_at r s' = Some (Instance Class_B []) \<and>
      take (length (heap s)) (heap s') = heap s \<and>
      from_a Class_B a s = call_no_args Class_B s \<and>
      from_a Class_B a' s = from_a Class_B a s)"
  by (simp add: from_b_def from_a_def call_no_args_def alloc_def obj_at_def lookup_def)

subsection \<open>The invariant of the two variants\<close>

text \<open>
  The invariant does not hold of every \<open>Ok\<close>, however constructed. \<open>Ok(response=None)\<close>
  has a type (\<open>Ok[None]\<close>: the type variable has no bound) and neither of its payload
  fields is populated, while \<open>is_success\<close> is \<open>True\<close>. And the generated \<open>__init__\<close>
  takes the discriminant as a keyword like any field: \<open>Ok(response=1, is_success=False)\<close>
  runs, and its discriminant disagrees with its payload.
\<close>

theorem Ok_of_None_breaks_invariant:
  "Ok_init PyNone None None empty_state =
     Inr (PyRef 0, \<lparr>globals = [], heap = [Instance Class_Ok
            [(Response, PyNone), (Error, PyNone), (Is_success, PyBool True)]]\<rparr>) \<and>
   instance_of (PyRef 0) Class_Ok \<lparr>globals = [], heap = [Instance Class_Ok
            [(Response, PyNone), (Error, PyNone), (Is_success, PyBool True)]]\<rparr> \<and>
   \<not> payload_invariant (PyRef 0) \<lparr>globals = [], heap = [Instance Class_Ok
            [(Response, PyNone), (Error, PyNone), (Is_success, PyBool True)]]\<rparr> \<and>
   Ok_init (PyInt 1) None (Some (PyBool False)) empty_state =
     Inr (PyRef 0, \<lparr>globals = [], heap = [Instance Class_Ok
            [(Response, PyInt 1), (Error, PyNone), (Is_success, PyBool False)]]\<rparr>) \<and>
   \<not> payload_invariant (PyRef 0) \<lparr>globals = [], heap = [Instance Class_Ok
            [(Response, PyInt 1), (Error, PyNone), (Is_success, PyBool False)]]\<rparr>"
  by (simp add: Ok_init_def alloc_def empty_state_def instance_of_def obj_at_def lookup_def
      payload_invariant_def getattr_def)

text \<open>
  C3, as amended (the theorem above is where the claim as stated fails). An \<open>Ok\<close> constructed from a response other than \<open>None\<close> with
  \<open>error\<close> and \<open>is_success\<close> left at their defaults, an \<open>Err\<close> constructed from an
  error other than \<open>None\<close> with \<open>response\<close> and \<open>is_success\<close> left at their defaults,
  and so every result of \<open>interface\<close>, has exactly one of \<open>response\<close> and \<open>error\<close>
  populated, and its \<open>is_success\<close> is \<open>True\<close> if and only if that one is \<open>response\<close>.
\<close>

theorem constructed_variants_invariant:
  "resp \<noteq> PyNone \<Longrightarrow> e \<noteq> PyNone \<Longrightarrow>
   (\<exists>r s'. Ok_init resp None None s = Inr (r, s') \<and> instance_of r Class_Ok s' \<and>
      payload_invariant r s') \<and>
   (\<exists>r s'. Err_init e None None s = Inr (r, s') \<and> instance_of r Class_Err s' \<and>
      payload_invariant r s') \<and>
   (\<exists>r s'. interface value s = Inr (r, s') \<and> payload_invariant r s')"
proof (intro conjI)
  assume "resp \<noteq> PyNone"
  then show "\<exists>r s'. Ok_init resp None None s = Inr (r, s') \<and> instance_of r Class_Ok s' \<and>
      payload_invariant r s'"
    by (simp add: Ok_init_def alloc_def instance_of_def obj_at_def lookup_def
        payload_invariant_def getattr_def)
next
  assume "e \<noteq> PyNone"
  then show "\<exists>r s'. Err_init e None None s = Inr (r, s') \<and> instance_of r Class_Err s' \<and>
      payload_invariant r s'"
    by (simp add: Err_init_def alloc_def instance_of_def obj_at_def lookup_def
        payload_invariant_def getattr_def)
next
  show "\<exists>r s'. interface value s = Inr (r, s') \<and> payload_invariant r s'"
  proof (cases "10 < value")
    case True
    then show ?thesis
      by (simp add: interface_gt payload_invariant_def getattr_def lookup_appended)
  next
    case False
    then have "value \<le> 10" by simp
    then show ?thesis
      by (simp add: interface_le payload_invariant_def getattr_def lookup_appended)
  qed
qed

theorem constructed_variants_invariant_witness:
  "PyInt 12 \<noteq> PyNone \<and> PyRef 0 \<noteq> PyNone \<and>
   (\<exists>r s'. Ok_init (PyInt 12) None None
        \<lparr>globals = [], heap = [Instance Class_ValueError [(Args, PyTuple [])]]\<rparr> = Inr (r, s') \<and>
      instance_of r Class_Ok s' \<and> payload_invariant r s') \<and>
   (\<exists>r s'. Err_init (PyRef 0) None None
        \<lparr>globals = [], heap = [Instance Class_ValueError [(Args, PyTuple [])]]\<rparr> = Inr (r, s') \<and>
      instance_of r Class_Err s' \<and> payload_invariant r s') \<and>
   (\<exists>r s'. interface 11
        \<lparr>globals = [], heap = [Instance Class_ValueError [(Args, PyTuple [])]]\<rparr> = Inr (r, s') \<and>
      payload_invariant r s')"
  using constructed_variants_invariant [of "PyInt 12" "PyRef 0"
      "\<lparr>globals = [], heap = [Instance Class_ValueError [(Args, PyTuple [])]]\<rparr>" 11]
  by simp

subsection \<open>Assignment to the discriminant\<close>




end
